theory Spec2Isabelle
  imports Main "HOL-Library.Word"
begin

section \<open>Transcriptor: the event handlers of \<^verbatim>\<open>transcriptor_gui.py\<close>\<close>

text \<open>
  The program is one Python module: a start-up check of the API credential, three
  button callbacks (\<^verbatim>\<open>seleccionar_archivo\<close>, \<^verbatim>\<open>transcribir\<close> with its worker
  \<^verbatim>\<open>run\<close>, \<^verbatim>\<open>encriptar\<close>) and the helper \<^verbatim>\<open>encrypt_text\<close>. The callbacks
  read and write module globals and Tk widgets; here they are functions from the state of
  those globals and widgets to the new state. What the callbacks ask of the outside
  (the file system, the remote service, the libraries) is a record of functions, so every
  statement below holds for whatever the outside answers.
\<close>

subsection \<open>Strings, bytes and exceptions\<close>

text \<open>
  A Python \<^verbatim>\<open>str\<close> is a sequence of code points, a \<^verbatim>\<open>bytes\<close> object a sequence of
  octets. \<open>lit\<close> turns an ASCII literal of the source into its code points.
\<close>

type_synonym str = "nat list"

type_synonym bytes = "8 word list"

definition lit :: "string \<Rightarrow> str" where
  "lit cs = map of_char cs"

text \<open>
  An exception caught by \<^verbatim>\<open>except Exception as e\<close>; the argument is \<^verbatim>\<open>str(e)\<close>.
  Signals outside the class \<^verbatim>\<open>Exception\<close> (\<^verbatim>\<open>KeyboardInterrupt\<close>, \<^verbatim>\<open>SystemExit\<close>)
  are not raised by the calls modelled here and have no constructor.
\<close>

datatype exn = Exception str

fun py_str :: "exn \<Rightarrow> str" where
  "py_str (Exception m) = m"

subsection \<open>Built-in string operations\<close>

text \<open>
  \<^verbatim>\<open>bytes.decode('latin-1')\<close>: every octet becomes the code point of the same value;
  it never fails.
\<close>

definition decode_latin1 :: "bytes \<Rightarrow> str" where
  "decode_latin1 bs = map unat bs"

text \<open>
  \<^verbatim>\<open>str.strip()\<close> removes the leading and trailing characters that CPython's
  \<^verbatim>\<open>Py_UNICODE_ISSPACE\<close> accepts.
\<close>

definition Py_UNICODE_ISSPACE :: "nat \<Rightarrow> bool" where
  "Py_UNICODE_ISSPACE c =
     ((9 \<le> c \<and> c \<le> 13) \<or> (28 \<le> c \<and> c \<le> 32) \<or> c = 0x85 \<or> c = 0xA0 \<or>
      c = 0x1680 \<or> (0x2000 \<le> c \<and> c \<le> 0x200A) \<or> c = 0x2028 \<or> c = 0x2029 \<or>
      c = 0x202F \<or> c = 0x205F \<or> c = 0x3000)"

definition strip :: "str \<Rightarrow> str" where
  "strip s = rev (dropWhile Py_UNICODE_ISSPACE (rev (dropWhile Py_UNICODE_ISSPACE s)))"

subsection \<open>The outside world\<close>

type_synonym environ = "str \<rightharpoonup> str"

text \<open>
  The calls the module makes into libraries and the operating system. \<open>'r\<close> is what
  one encryption draws from \<^verbatim>\<open>os.urandom\<close> and the clock.
  \<^item> \<open>load_dotenv\<close>: the process environment after \<^verbatim>\<open>load_dotenv()\<close>;
  \<^item> \<open>open_rb\<close>: \<^verbatim>\<open>open(path, "rb")\<close> and the read of the handle, the content or the
    exception raised (\<open>None\<close> is Python's \<^verbatim>\<open>None\<close> as path);
  \<^item> \<open>transcriptions_create\<close>: \<^verbatim>\<open>client.audio.transcriptions.create(model, file)\<close>,
    the \<^verbatim>\<open>text\<close> of the result or the exception raised;
  \<^item> \<open>Fernet_generate_key\<close>, \<open>Fernet_encrypt\<close>: the \<^verbatim>\<open>cryptography\<close> package;
  \<^item> \<open>str_encode\<close>, \<open>bytes_decode\<close>: \<^verbatim>\<open>str.encode()\<close> and \<^verbatim>\<open>bytes.decode()\<close> (UTF-8);
  \<^item> \<open>tk_surrogate_error\<close>: the \<^verbatim>\<open>UnicodeEncodeError\<close> that \<^verbatim>\<open>tkinter\<close> raises for a
    string it cannot hand to Tcl;
  \<^item> \<open>tk_insert_escaped\<close>: what a text widget keeps of a string that holds code points
    \<^verbatim>\<open>U+DC80\<close> to \<^verbatim>\<open>U+DCFF\<close>, or the exception raised.
\<close>

record 'r world =
  load_dotenv :: "environ \<Rightarrow> environ"
  open_rb :: "str option \<Rightarrow> exn + bytes"
  transcriptions_create :: "str \<Rightarrow> bytes \<Rightarrow> exn + str"
  Fernet_generate_key :: "'r \<Rightarrow> bytes"
  Fernet_encrypt :: "bytes \<Rightarrow> 'r \<Rightarrow> bytes \<Rightarrow> bytes"
  str_encode :: "str \<Rightarrow> exn + bytes"
  bytes_decode :: "bytes \<Rightarrow> exn + str"
  tk_surrogate_error :: "str \<Rightarrow> exn"
  tk_insert_escaped :: "str \<Rightarrow> exn + str"

definition os_getenv :: "environ \<Rightarrow> str \<Rightarrow> str option" where
  "os_getenv env name = env name"

subsection \<open>Module state\<close>

text \<open>
  The globals and widgets the callbacks touch (\<open>text_raw_view\<close> is the widget
  \<^verbatim>\<open>text_raw\<close>, whose name is taken in Isabelle). \<open>messagebox\<close>, \<open>network\<close> and
  \<open>threads\<close> record effects: the modal boxes shown so far, the transcription requests
  issued so far (model name and audio content) and the number of worker threads started.
\<close>

datatype box = showinfo | showerror

record state =
  client :: str
  selected_file :: "str option"
  text_raw_view :: str
  text_transcripcion :: str
  text_encriptado :: str
  progress :: bool
  messagebox :: "(box \<times> str \<times> str) list"
  network :: "(str \<times> bytes) list"
  threads :: nat

text \<open>
  A Tk text widget holds its content followed by one newline that cannot be deleted:
  \<^verbatim>\<open>get("1.0", END)\<close> returns both and \<^verbatim>\<open>delete("1.0", END)\<close> empties the content.
\<close>

definition Text_get :: "str \<Rightarrow> str" where
  "Text_get t = t @ [10]"

definition Text_delete :: "str \<Rightarrow> str" where
  "Text_delete t = []"

text \<open>
  \<^verbatim>\<open>insert(END, s)\<close> does not always append \<open>s\<close>. \<^verbatim>\<open>tkinter\<close> first encodes the
  whole string as UTF-8 with the \<^verbatim>\<open>surrogateescape\<close> handler: a surrogate code point
  outside \<^verbatim>\<open>U+DC80\<close> to \<^verbatim>\<open>U+DCFF\<close> anywhere in \<open>s\<close> raises
  \<^verbatim>\<open>UnicodeEncodeError\<close> and the widget is not touched; code points \<^verbatim>\<open>U+DC80\<close> to
  \<^verbatim>\<open>U+DCFF\<close> pass as raw bytes, and what the widget makes of them is left to the
  world. Of any other string the widget keeps the characters before the first
  \<^verbatim>\<open>U+0000\<close> and drops the rest.
\<close>

definition tk_rejects :: "nat \<Rightarrow> bool" where
  "tk_rejects c = ((0xD800 \<le> c \<and> c < 0xDC80) \<or> (0xDCFF < c \<and> c \<le> 0xDFFF))"

definition tk_escapes :: "nat \<Rightarrow> bool" where
  "tk_escapes c = (0xDC80 \<le> c \<and> c \<le> 0xDCFF)"

definition Text_insert :: "'r world \<Rightarrow> str \<Rightarrow> str \<Rightarrow> exn + str" where
  "Text_insert W t s =
     (if list_ex tk_rejects s then Inl (tk_surrogate_error W s)
      else if list_ex tk_escapes s then
        (case tk_insert_escaped W s of Inl e \<Rightarrow> Inl e | Inr kept \<Rightarrow> Inr (t @ kept))
      else Inr (t @ takeWhile (\<lambda>c. c \<noteq> 0) s))"

definition show_box :: "box \<Rightarrow> str \<Rightarrow> str \<Rightarrow> state \<Rightarrow> state" where
  "show_box b title msg s = s\<lparr>messagebox := messagebox s @ [(b, title, msg)]\<rparr>"

text \<open>Truthiness of a value that is \<^verbatim>\<open>None\<close> or a string.\<close>

fun truthy :: "str option \<Rightarrow> bool" where
  "truthy None = False"
| "truthy (Some v) = (v \<noteq> [])"

subsection \<open>Start-up\<close>

text \<open>
  The module body up to the first widget: load the environment, read the credential,
  raise when it is falsy, otherwise build the client; the widgets start empty.
\<close>

definition API_KEY_missing :: exn where
  "API_KEY_missing = Exception (lit ''No se encontr'' @ [0xF3] @ lit '' la API KEY en .env'')"

definition window :: "str \<Rightarrow> state" where
  "window key = \<lparr>client = key, selected_file = None, text_raw_view = [], text_transcripcion = [],
     text_encriptado = [], progress = False, messagebox = [], network = [], threads = 0\<rparr>"

definition module_init :: "'r world \<Rightarrow> environ \<Rightarrow> exn + state" where
  "module_init W environ =
     (let API_KEY = os_getenv (load_dotenv W environ) (lit ''OPENAI_API_KEY'')
      in if \<not> truthy API_KEY then Inl API_KEY_missing
         else (case API_KEY of None \<Rightarrow> Inl API_KEY_missing | Some key \<Rightarrow> Inr (window key)))"

subsection \<open>encrypt_text\<close>

definition encrypt_text :: "'r world \<Rightarrow> 'r \<Rightarrow> str \<Rightarrow> exn + str" where
  "encrypt_text W rnd text =
     (let key = Fernet_generate_key W rnd
      in case str_encode W text of
           Inl e \<Rightarrow> Inl e
         | Inr data \<Rightarrow> bytes_decode W (Fernet_encrypt W key rnd data))"

subsection \<open>The callbacks\<close>

text \<open>
  A callback returns the exception that escaped it, if any, with the state it left.
  \<open>file\<close> is what the file dialog returned: the empty string when it was cancelled.
\<close>

definition seleccionar_archivo :: "'r world \<Rightarrow> str \<Rightarrow> state \<Rightarrow> exn option \<times> state" where
  "seleccionar_archivo W file s =
     (if truthy (Some file) then
        (let s1 = s\<lparr>selected_file := Some file\<rparr>
         in case open_rb W (selected_file s1) of
              Inl e \<Rightarrow> (Some e, s1)
            | Inr raw \<Rightarrow>
                (let raw_text = decode_latin1 (take 3000 raw);
                     s2 = s1\<lparr>text_raw_view := Text_delete (text_raw_view s1)\<rparr>
                 in case Text_insert W (text_raw_view s2) raw_text of
                      Inl e \<Rightarrow> (Some e, s2)
                    | Inr shown \<Rightarrow>
                        (None,
                         show_box showinfo (lit ''Archivo cargado'')
                           (lit ''Archivo cargado:'' @ [10] @ file @ [10, 10] @
                            lit ''Vista RAW mostrada arriba.'')
                           (s2\<lparr>text_raw_view := shown\<rparr>))))
      else (None, s))"

text \<open>
  The worker body. Each started thread executes it once, on the state it finds when it
  runs. The \<^verbatim>\<open>delete\<close> and the \<^verbatim>\<open>insert\<close> are inside the \<^verbatim>\<open>try\<close>: when the insert
  raises, the display is already empty and the handler shows the error.
\<close>

definition run :: "'r world \<Rightarrow> state \<Rightarrow> state" where
  "run W s =
     (let s1 = s\<lparr>progress := True\<rparr>;
          s2 = (case open_rb W (selected_file s1) of
                  Inl e \<Rightarrow> show_box showerror (lit ''Error'') (py_str e) s1
                | Inr audio \<Rightarrow>
                    (let s1' = s1\<lparr>network := network s1 @ [(lit ''gpt-4o-transcribe'', audio)]\<rparr>
                     in case transcriptions_create W (lit ''gpt-4o-transcribe'') audio of
                          Inl e \<Rightarrow> show_box showerror (lit ''Error'') (py_str e) s1'
                        | Inr result_text \<Rightarrow>
                            (let s3 = s1'\<lparr>text_transcripcion :=
                                           Text_delete (text_transcripcion s1')\<rparr>
                             in case Text_insert W (text_transcripcion s3) result_text of
                                  Inl e \<Rightarrow> show_box showerror (lit ''Error'') (py_str e) s3
                                | Inr shown \<Rightarrow> s3\<lparr>text_transcripcion := shown\<rparr>)))
      in s2\<lparr>progress := False\<rparr>)"

definition transcribir :: "state \<Rightarrow> state" where
  "transcribir s =
     (if \<not> truthy (selected_file s)
      then show_box showerror (lit ''Error'') (lit ''Seleccione un archivo de audio primero'') s
      else s\<lparr>threads := threads s + 1\<rparr>)"

definition encriptar :: "'r world \<Rightarrow> 'r \<Rightarrow> state \<Rightarrow> exn option \<times> state" where
  "encriptar W rnd s =
     (let contenido = strip (Text_get (text_transcripcion s))
      in if \<not> truthy (Some contenido)
         then (None, show_box showerror (lit ''Error'')
                       (lit ''No hay texto transcrito para encriptar'') s)
         else (case encrypt_text W rnd contenido of
                 Inl e \<Rightarrow> (Some e, s)
               | Inr encrypted \<Rightarrow>
                   (let s1 = s\<lparr>text_encriptado := Text_delete (text_encriptado s)\<rparr>
                    in case Text_insert W (text_encriptado s1) encrypted of
                         Inl e \<Rightarrow> (Some e, s1)
                       | Inr shown \<Rightarrow> (None, s1\<lparr>text_encriptado := shown\<rparr>))))"

subsection \<open>An example world\<close>

text \<open>
  One concrete outside for running the callbacks: a ten-byte file of zeros that the
  service transcribes as ``hello world'', a second file on which the service answers
  ``rate limit exceeded'', a third whose transcript has a \<^verbatim>\<open>U+0000\<close> between
  ``hello'' and ``world'', no other file, and an environment file that adds nothing.
  The cipher of this world and its answer for escaped surrogates are stand-ins that only
  fill the record.
\<close>

definition sample_wav :: bytes where
  "sample_wav = [0, 0, 0, 0, 0, 0, 0, 0, 0, 0]"

definition busy_wav :: bytes where
  "busy_wav = [82, 73, 70, 70]"

definition nul_wav :: bytes where
  "nul_wav = [79, 103, 103, 83]"

definition example_world :: "nat world" where
  "example_world =
     \<lparr>load_dotenv = (\<lambda>env. env),
      open_rb = (\<lambda>p. if p = Some (lit ''sample.wav'') then Inr sample_wav
                      else if p = Some (lit ''busy.wav'') then Inr busy_wav
                      else if p = Some (lit ''nul.wav'') then Inr nul_wav
                      else Inl (Exception (lit ''[Errno 2] No such file or directory''))),
      transcriptions_create = (\<lambda>m audio. if audio = sample_wav then Inr (lit ''hello world'')
                      else if audio = nul_wav then Inr (lit ''hello'' @ [0] @ lit ''world'')
                      else Inl (Exception (lit ''rate limit exceeded''))),
      Fernet_generate_key = (\<lambda>r. [word_of_nat r]),
      Fernet_encrypt = (\<lambda>key r data. key @ data),
      str_encode = (\<lambda>t. Inr (map word_of_nat t)),
      bytes_decode = (\<lambda>b. Inr (map unat b)),
      tk_surrogate_error = (\<lambda>t. Exception (lit ''surrogates not allowed'')),
      tk_insert_escaped = (\<lambda>t. Inl (Exception (lit ''surrogates not allowed'')))\<rparr>"

text \<open>
  Two states to run the callbacks on: the window as it opens, and the window after a
  file was chosen and an earlier transcription left its text in the display.
\<close>

definition loaded :: "str \<Rightarrow> state" where
  "loaded file = (window (lit ''sk-test''))\<lparr>selected_file := Some file,
     text_transcripcion := lit ''previous text''\<rparr>"

section \<open>Properties\<close>

subsection \<open>Auxiliary facts\<close>

lemma strip_eq_Nil_iff: "strip s = [] \<longleftrightarrow> list_all Py_UNICODE_ISSPACE s"
proof
  assume "strip s = []"
  then have "\<forall>c \<in> set (dropWhile Py_UNICODE_ISSPACE s). Py_UNICODE_ISSPACE c"
    by (simp add: strip_def)
  then have "dropWhile Py_UNICODE_ISSPACE s = []"
    using hd_dropWhile [of Py_UNICODE_ISSPACE s] hd_in_set by blast
  then show "list_all Py_UNICODE_ISSPACE s"
    by (simp add: list_all_iff)
next
  assume "list_all Py_UNICODE_ISSPACE s"
  then have "dropWhile Py_UNICODE_ISSPACE s = []"
    by (simp add: list_all_iff)
  then show "strip s = []"
    by (simp only: strip_def rev.simps dropWhile.simps)
qed

text \<open>
  The newline a text widget appends to what \<^verbatim>\<open>get\<close> returns does not decide whether
  the stripped text is empty.
\<close>

lemma strip_Text_get: "strip (Text_get t) = [] \<longleftrightarrow> strip t = []"
  by (simp add: strip_eq_Nil_iff Text_get_def Py_UNICODE_ISSPACE_def)

lemma latin1_roundtrip: "map word_of_nat (decode_latin1 bs) = bs"
  by (simp add: decode_latin1_def comp_def map_idI)

lemma inj_decode_latin1: "inj decode_latin1"
  by (rule inj_on_inverseI [where g = "map word_of_nat"]) (rule latin1_roundtrip)

text \<open>
  A string decoded as Latin-1 has code points below 256, so \<^verbatim>\<open>tkinter\<close> accepts it, and
  the widget keeps the characters of the bytes before the first zero byte.
\<close>

lemma latin1_below_256: "c \<in> set (decode_latin1 bs) \<Longrightarrow> c < 256"
proof -
  assume "c \<in> set (decode_latin1 bs)"
  then obtain b where "b \<in> set bs" and "c = unat b"
    by (auto simp: decode_latin1_def)
  then show "c < 256"
    using unsigned_less [of b, where ?'a = nat] by simp
qed

lemma latin1_not_rejected: "\<not> list_ex tk_rejects (decode_latin1 bs)"
  using latin1_below_256 [of _ bs] by (fastforce simp: list_ex_iff tk_rejects_def)

lemma latin1_not_escaped: "\<not> list_ex tk_escapes (decode_latin1 bs)"
  using latin1_below_256 [of _ bs] by (fastforce simp: list_ex_iff tk_escapes_def)

lemma takeWhile_latin1:
  "takeWhile (\<lambda>c. c \<noteq> 0) (decode_latin1 bs) = decode_latin1 (takeWhile (\<lambda>b. b \<noteq> 0) bs)"
  by (simp add: decode_latin1_def takeWhile_map comp_def unat_gt_0)

lemma Text_insert_latin1:
  "Text_insert W t (decode_latin1 bs) = Inr (t @ decode_latin1 (takeWhile (\<lambda>b. b \<noteq> 0) bs))"
  by (simp only: Text_insert_def latin1_not_rejected latin1_not_escaped takeWhile_latin1
      if_False)


lemma run_stops_progress: "\<not> progress (run W s)"
  by (simp add: run_def Let_def)

subsection \<open>The raw preview\<close>

text \<open>
  Claim C2, which the code does not meet. When the chosen file reads as the byte sequence
  \<open>raw\<close>, the raw view shows the characters of those of its first 3000 bytes that
  precede the first zero byte, one character per byte and of the same value; the bytes
  from the first zero on are not displayed. The view has \<open>min (length raw) 3000\<close>
  characters only when none of the first 3000 bytes is zero: for the ten zero bytes of
  \<^verbatim>\<open>sample.wav\<close> the view is empty.
\<close>

theorem seleccionar_archivo_shown:
  assumes "file \<noteq> []" and "open_rb W (Some file) = Inr raw"
  shows "text_raw_view (snd (seleccionar_archivo W file s)) =
           map unat (takeWhile (\<lambda>b. b \<noteq> 0) (take 3000 raw))"
  using assms
  by (simp add: seleccionar_archivo_def Let_def show_box_def Text_delete_def
      Text_insert_latin1) (simp add: decode_latin1_def)

theorem seleccionar_archivo_shown_witness:
  "lit ''sample.wav'' \<noteq> []
   \<and> open_rb example_world (Some (lit ''sample.wav'')) = Inr sample_wav
   \<and> min (length sample_wav) 3000 = 10
   \<and> text_raw_view (snd (seleccionar_archivo example_world (lit ''sample.wav'')
        (window (lit ''sk-test'')))) = []"
  using seleccionar_archivo_shown [of "lit ''sample.wav''" example_world sample_wav
      "window (lit ''sk-test'')"]
  by (simp add: example_world_def sample_wav_def lit_def)

text \<open>
  On a file whose first 3000 bytes hold no zero, the view is the whole prefix: it has
  \<open>min (length raw) 3000\<close> characters and mapping them back gives the prefix again.
\<close>

lemma seleccionar_archivo_no_zero:
  assumes "file \<noteq> []" and "open_rb W (Some file) = Inr raw" and "0 \<notin> set (take 3000 raw)"
  shows "text_raw_view (snd (seleccionar_archivo W file s)) = map unat (take 3000 raw)
         \<and> length (text_raw_view (snd (seleccionar_archivo W file s))) = min (length raw) 3000
         \<and> map word_of_nat (text_raw_view (snd (seleccionar_archivo W file s))) = take 3000 raw"
proof -
  have kept: "takeWhile (\<lambda>b. b \<noteq> 0) (take 3000 raw) = take 3000 raw"
    using assms(3) by simp metis
  have "text_raw_view (snd (seleccionar_archivo W file s)) =
      decode_latin1 (takeWhile (\<lambda>b. b \<noteq> 0) (take 3000 raw))"
    using assms(1,2)
    by (simp add: seleccionar_archivo_def Let_def show_box_def Text_delete_def
        Text_insert_latin1)
  then have shown: "text_raw_view (snd (seleccionar_archivo W file s)) =
      decode_latin1 (take 3000 raw)"
    by (simp only: kept)
  show ?thesis
    unfolding shown using latin1_roundtrip [of "take 3000 raw"]
    by (simp add: decode_latin1_def)
qed

text \<open>
  Claim C7. When the dialog is cancelled the callback returns the state it was given: the
  selected file, the three displays and the boxes shown are what they were, and no
  exception leaves the callback.
\<close>

theorem seleccionar_archivo_cancelled: "seleccionar_archivo W [] s = (None, s)"
  by (simp add: seleccionar_archivo_def)

theorem seleccionar_archivo_cancelled_witness:
  "seleccionar_archivo example_world [] (loaded (lit ''sample.wav'')) =
     (None, loaded (lit ''sample.wav''))"
  using seleccionar_archivo_cancelled [of example_world "loaded (lit ''sample.wav'')"]
  by simp

subsection \<open>Transcription\<close>

text \<open>
  Claim C4. With no file selected, \<^verbatim>\<open>transcribir\<close> shows the error box ``Seleccione
  un archivo de audio primero'' and does nothing else: the state is the old one with that
  box added, so no request was issued, no worker was started, the progress bar was not
  started and no display changed.
\<close>

theorem transcribir_unset:
  assumes "selected_file s = None"
  shows "transcribir s =
           s\<lparr>messagebox := messagebox s @
              [(showerror, lit ''Error'', lit ''Seleccione un archivo de audio primero'')]\<rparr>
         \<and> network (transcribir s) = network s
         \<and> threads (transcribir s) = threads s
         \<and> progress (transcribir s) = progress s"
  using assms by (simp add: transcribir_def show_box_def)

theorem transcribir_unset_witness:
  "selected_file (window (lit ''sk-test'')) = None
   \<and> transcribir (window (lit ''sk-test'')) =
       (window (lit ''sk-test''))\<lparr>messagebox :=
          [(showerror, lit ''Error'', lit ''Seleccione un archivo de audio primero'')]\<rparr>
   \<and> network (transcribir (window (lit ''sk-test''))) = []
   \<and> threads (transcribir (window (lit ''sk-test''))) = 0
   \<and> \<not> progress (transcribir (window (lit ''sk-test'')))"
  using transcribir_unset [of "window (lit ''sk-test'')"]
  by (simp add: window_def)

text \<open>With a file selected the callback only starts one worker.\<close>

lemma transcribir_selected:
  "selected_file s = Some file \<Longrightarrow> file \<noteq> [] \<Longrightarrow> transcribir s = s\<lparr>threads := threads s + 1\<rparr>"
  by (simp add: transcribir_def)






text \<open>
  What the worker does with the other returned texts. A text with no surrogate code
  point is cut at its first \<^verbatim>\<open>U+0000\<close>. A text that \<^verbatim>\<open>tkinter\<close> rejects makes the
  insert raise after the delete: the display is left empty and the handler shows the
  error.
\<close>

lemma run_truncates:
  assumes "open_rb W (selected_file s) = Inr audio"
    and "transcriptions_create W (lit ''gpt-4o-transcribe'') audio = Inr result_text"
    and "list_all (\<lambda>c. \<not> (0xD800 \<le> c \<and> c \<le> 0xDFFF)) result_text"
  shows "text_transcripcion (run W s) = takeWhile (\<lambda>c. c \<noteq> 0) result_text"
proof -
  have "\<not> list_ex tk_rejects result_text" and "\<not> list_ex tk_escapes result_text"
    using assms(3) by (auto simp: list_all_iff list_ex_iff tk_rejects_def tk_escapes_def)
  then show ?thesis
    using assms(1,2) by (simp add: run_def Let_def Text_insert_def Text_delete_def)
qed

lemma run_insert_rejected:
  assumes "open_rb W (selected_file s) = Inr audio"
    and "transcriptions_create W (lit ''gpt-4o-transcribe'') audio = Inr result_text"
    and "list_ex tk_rejects result_text"
  shows "run W s = s\<lparr>text_transcripcion := [],
               network := network s @ [(lit ''gpt-4o-transcribe'', audio)],
               messagebox := messagebox s @
                 [(showerror, lit ''Error'', py_str (tk_surrogate_error W result_text))],
               progress := False\<rparr>"
  using assms by (simp add: run_def Let_def Text_insert_def Text_delete_def show_box_def)

text \<open>
  Claim C9. When opening the selected file raises an exception \<open>e\<close>, the worker takes
  the same path as for a failed request: \<^verbatim>\<open>str(e)\<close> is shown in an error box, the
  transcription display keeps its content, the progress bar is stopped, and no request
  is issued. The worker returns a state in every case: no exception leaves it.
\<close>

theorem run_open_error:
  assumes "open_rb W (selected_file s) = Inl e"
  shows "run W s = s\<lparr>messagebox := messagebox s @ [(showerror, lit ''Error'', py_str e)],
                     progress := False\<rparr>
         \<and> text_transcripcion (run W s) = text_transcripcion s
         \<and> network (run W s) = network s
         \<and> \<not> progress (run W s)"
  using assms by (simp add: run_def Let_def show_box_def)

theorem run_open_error_witness:
  "open_rb example_world (selected_file (loaded (lit ''gone.wav''))) =
     Inl (Exception (lit ''[Errno 2] No such file or directory''))
   \<and> messagebox (run example_world (loaded (lit ''gone.wav''))) =
       [(showerror, lit ''Error'', lit ''[Errno 2] No such file or directory'')]
   \<and> text_transcripcion (run example_world (loaded (lit ''gone.wav''))) = lit ''previous text''
   \<and> network (run example_world (loaded (lit ''gone.wav''))) = []
   \<and> \<not> progress (run example_world (loaded (lit ''gone.wav'')))"
  using run_open_error [of example_world "loaded (lit ''gone.wav'')"
      "Exception (lit ''[Errno 2] No such file or directory'')"]
  by (simp add: example_world_def lit_def loaded_def window_def)

subsection \<open>Encryption\<close>

text \<open>
  Claim C5. When the transcription display is empty or holds only whitespace,
  \<^verbatim>\<open>encriptar\<close> shows the error box ``No hay texto transcrito para encriptar'' and
  does nothing else: the state is the old one with that box added, whatever the cipher and
  the random source are, so nothing was encrypted and the encrypted display keeps its
  content.
\<close>

theorem encriptar_empty:
  assumes "strip (text_transcripcion s) = []"
  shows "encriptar W rnd s =
           (None, s\<lparr>messagebox := messagebox s @
              [(showerror, lit ''Error'', lit ''No hay texto transcrito para encriptar'')]\<rparr>)
         \<and> text_encriptado (snd (encriptar W rnd s)) = text_encriptado s"
  using assms by (simp add: encriptar_def strip_Text_get show_box_def)

theorem encriptar_empty_witness:
  "strip (text_transcripcion ((window (lit ''sk''))\<lparr>text_transcripcion := [32, 9, 10]\<rparr>)) = []
   \<and> encriptar example_world 7 ((window (lit ''sk''))\<lparr>text_transcripcion := [32, 9, 10]\<rparr>) =
       (None, (window (lit ''sk''))\<lparr>text_transcripcion := [32, 9, 10],
          messagebox := [(showerror, lit ''Error'', lit ''No hay texto transcrito para encriptar'')]\<rparr>)"
  using encriptar_empty [of "(window (lit ''sk''))\<lparr>text_transcripcion := [32, 9, 10]\<rparr>" example_world 7]
  by (simp add: strip_def Py_UNICODE_ISSPACE_def window_def)

text \<open>
  On text that is not blank, the callback changes the encrypted display and nothing else:
  the key \<^verbatim>\<open>encrypt_text\<close> generated is in no field of the state it leaves.
\<close>

lemma encriptar_nonempty:
  assumes "strip (text_transcripcion s) \<noteq> []"
    and "encrypt_text W rnd (strip (Text_get (text_transcripcion s))) = Inr encrypted"
    and "Text_insert W [] encrypted = Inr shown"
  shows "encriptar W rnd s = (None, s\<lparr>text_encriptado := shown\<rparr>)"
  using assms by (simp add: encriptar_def strip_Text_get Text_delete_def Let_def)

subsection \<open>Start-up\<close>

text \<open>
  Claim C8. When \<^verbatim>\<open>os.getenv("OPENAI_API_KEY")\<close> finds no variable (after
  \<^verbatim>\<open>load_dotenv()\<close> has run), the module raises \<open>API_KEY_missing\<close>, the exception
  whose message says that the API key was not found in \<^verbatim>\<open>.env\<close>, and builds no window. In every environment \<open>environ'\<close>, the module
  either raises that exception or builds the window with a client whose key is the
  variable's value, which is not empty: the application does not run without a credential.
\<close>

theorem module_init_absent:
  assumes "os_getenv (load_dotenv W environ) (lit ''OPENAI_API_KEY'') = None"
  shows "module_init W environ = Inl API_KEY_missing
         \<and> py_str API_KEY_missing = lit ''No se encontr'' @ [0xF3] @ lit '' la API KEY en .env''
         \<and> (case module_init W environ' of
               Inl e \<Rightarrow> e = API_KEY_missing
             | Inr s \<Rightarrow> os_getenv (load_dotenv W environ') (lit ''OPENAI_API_KEY'') = Some (client s)
                        \<and> client s \<noteq> [])"
  using assms
  by (simp add: module_init_def Let_def API_KEY_missing_def window_def split: option.splits)

theorem module_init_absent_witness:
  "os_getenv (load_dotenv example_world Map.empty) (lit ''OPENAI_API_KEY'') = None
   \<and> module_init example_world Map.empty = Inl API_KEY_missing
   \<and> module_init example_world [lit ''OPENAI_API_KEY'' \<mapsto> lit ''sk-test''] =
       Inr (window (lit ''sk-test''))"
  using module_init_absent [of example_world Map.empty
      "[lit ''OPENAI_API_KEY'' \<mapsto> lit ''sk-test'']"]
  by (simp add: example_world_def os_getenv_def module_init_def lit_def)

text \<open>
  Claim C10. When the variable is set to the empty string, the module raises the same
  exception as when the variable is absent.
\<close>

theorem module_init_empty:
  assumes "os_getenv (load_dotenv W environ) (lit ''OPENAI_API_KEY'') = Some []"
  shows "module_init W environ = Inl API_KEY_missing"
  using assms by (simp add: module_init_def)

theorem module_init_empty_witness:
  "os_getenv (load_dotenv example_world [lit ''OPENAI_API_KEY'' \<mapsto> []])
     (lit ''OPENAI_API_KEY'') = Some []
   \<and> module_init example_world [lit ''OPENAI_API_KEY'' \<mapsto> []] = Inl API_KEY_missing
   \<and> module_init example_world [lit ''OPENAI_API_KEY'' \<mapsto> []] =
       module_init example_world Map.empty"
  using module_init_empty [of example_world "[lit ''OPENAI_API_KEY'' \<mapsto> []]"]
  by (simp add: example_world_def os_getenv_def module_init_def)

end
